theory Spec2Isabelle
  imports Main
begin

section \<open>Python values\<close>

text \<open>
  The handlers of \<^verbatim>\<open>app.py\<close> work on what \<^verbatim>\<open>request.get_json\<close> returns: Python values
  built from \<^verbatim>\<open>None\<close>, booleans, integers, strings, lists and dictionaries. A dictionary is
  the association list of its items in insertion order (its keys are strings, since it comes
  from a JSON object); a lookup takes the first item with the key. Python's integers are
  unbounded, so they are \<^typ>\<open>int\<close>. A string is a \<^typ>\<open>string\<close> whose characters stand for the
  code points of the same number (U+0000 to U+00FF). Two kinds of value are outside the
  model, and so outside every statement below: strings with a code point above U+00FF (among
  them the strings with a lone surrogate, which cannot be encoded for the database), and
  floats, which is what Python reads from a JSON number with a fraction or an exponent.
\<close>

datatype pyval =
    PNone
  | PBool bool
  | PInt int
  | PStr string
  | PList "pyval list"
  | PDict "(string \<times> pyval) list"

datatype exn =
    IndexError
  | KeyError string
  | TypeError
  | ValueError
  | OverflowError
  | IntegrityError

text \<open>Truth value testing, as \<^verbatim>\<open>bool(v)\<close> and \<^verbatim>\<open>v or w\<close> do it.\<close>

fun py_bool :: "pyval \<Rightarrow> bool" where
  "py_bool PNone = False"
| "py_bool (PBool b) = b"
| "py_bool (PInt n) = (n \<noteq> 0)"
| "py_bool (PStr s) = (s \<noteq> [])"
| "py_bool (PList xs) = (xs \<noteq> [])"
| "py_bool (PDict kvs) = (kvs \<noteq> [])"

definition py_or :: "pyval \<Rightarrow> pyval \<Rightarrow> pyval" where
  "py_or v w = (if py_bool v then v else w)"

text \<open>
  \<^verbatim>\<open>str.strip()\<close> removes the characters for which \<^verbatim>\<open>str.isspace\<close> holds from both ends.
  Below U+0100 these are the code points 9 to 13, 28 to 32, 133 and 160.
\<close>

definition py_isspace :: "char \<Rightarrow> bool" where
  "py_isspace c =
     (let n = (of_char c :: nat)
      in (9 \<le> n \<and> n \<le> 13) \<or> (28 \<le> n \<and> n \<le> 32) \<or> n = 133 \<or> n = 160)"

definition strip :: "string \<Rightarrow> string" where
  "strip s = rev (dropWhile py_isspace (rev (dropWhile py_isspace s)))"

text \<open>
  \<^verbatim>\<open>str(n)\<close> for an integer: decimal digits, with a minus sign when negative. CPython
  limits the conversions between integers and strings to 4300 digits (the default of
  \<^verbatim>\<open>sys.set_int_max_str_digits\<close>): \<^verbatim>\<open>str\<close> of an integer with more digits raises
  \<^verbatim>\<open>ValueError\<close>, and so does \<^verbatim>\<open>int\<close> of a string with more digits. The JSON parser reads
  integers with \<^verbatim>\<open>int\<close>, so an integer of a parsed body is within the limit.
\<close>

definition max_str_digits :: nat where
  "max_str_digits = 4300"

definition int_str_ok :: "int \<Rightarrow> bool" where
  "int_str_ok n \<longleftrightarrow> \<bar>n\<bar> < 10 ^ max_str_digits"

definition digit_char :: "nat \<Rightarrow> char" where
  "digit_char d = ''0123456789'' ! d"

fun dec_digits :: "nat \<Rightarrow> string" where
  "dec_digits n = (if n < 10 then [digit_char n] else dec_digits (n div 10) @ [digit_char (n mod 10)])"

definition dec_str :: "int \<Rightarrow> string" where
  "dec_str n = (if n < 0 then CHR ''-'' # dec_digits (nat (- n)) else dec_digits (nat n))"

text \<open>
  \<^verbatim>\<open>repr(s)\<close> for a string: single quotes, unless the string has a single quote and no
  double quote; the quote in use and the backslash are escaped, tab, newline and carriage
  return are written \<^verbatim>\<open>\t\<close>, \<^verbatim>\<open>\n\<close>, \<^verbatim>\<open>\r\<close>, and every other non-printable character
  (below 32, 127 to 160, and 173) as \<^verbatim>\<open>\xhh\<close>.
\<close>

definition hex_char :: "nat \<Rightarrow> char" where
  "hex_char d = ''0123456789abcdef'' ! d"

definition repr_char :: "char \<Rightarrow> char \<Rightarrow> string" where
  "repr_char q c =
     (let n = (of_char c :: nat) in
      if c = q \<or> c = CHR 0x5C then [CHR 0x5C, c]
      else if n = 9 then [CHR 0x5C, CHR ''t'']
      else if n = 10 then [CHR 0x5C, CHR ''n'']
      else if n = 13 then [CHR 0x5C, CHR ''r'']
      else if n < 32 \<or> (127 \<le> n \<and> n \<le> 160) \<or> n = 173
        then [CHR 0x5C, CHR ''x'', hex_char (n div 16), hex_char (n mod 16)]
      else [c])"

definition repr_str :: "string \<Rightarrow> string" where
  "repr_str s =
     (let q = (if CHR 0x27 \<in> set s \<and> CHR 0x22 \<notin> set s then CHR 0x22 else CHR 0x27)
      in q # concat (map (repr_char q) s) @ [q])"

fun join :: "string \<Rightarrow> string list \<Rightarrow> string" where
  "join sep [] = []"
| "join sep [x] = x"
| "join sep (x # y # r) = x @ sep @ join sep (y # r)"

fun py_repr :: "pyval \<Rightarrow> string" where
  "py_repr PNone = ''None''"
| "py_repr (PBool b) = (if b then ''True'' else ''False'')"
| "py_repr (PInt n) = dec_str n"
| "py_repr (PStr s) = repr_str s"
| "py_repr (PList xs) = ''['' @ join '', '' (map py_repr xs) @ '']''"
| "py_repr (PDict kvs) =
     ''{'' @ join '', '' (map (\<lambda>kv. repr_str (fst kv) @ '': '' @ py_repr (snd kv)) kvs) @ ''}''"

text \<open>
  \<^verbatim>\<open>str(v)\<close>: a string is itself, every other value is its \<^verbatim>\<open>repr\<close>. It raises
  \<^verbatim>\<open>ValueError\<close> when the value is, or a list or dictionary in it holds, an integer beyond
  the limit of 4300 digits.
\<close>

fun str_ok :: "pyval \<Rightarrow> bool" where
  "str_ok PNone = True"
| "str_ok (PBool b) = True"
| "str_ok (PInt n) = int_str_ok n"
| "str_ok (PStr s) = True"
| "str_ok (PList xs) = list_all str_ok xs"
| "str_ok (PDict kvs) = list_all (\<lambda>kv. str_ok (snd kv)) kvs"

definition str_of :: "pyval \<Rightarrow> string" where
  "str_of v = (case v of PStr s \<Rightarrow> s | _ \<Rightarrow> py_repr v)"

definition py_str :: "pyval \<Rightarrow> exn + string" where
  "py_str v = (if str_ok v then Inr (str_of v) else Inl ValueError)"

text \<open>\<^verbatim>\<open>isinstance(v, str)\<close>.\<close>

fun is_str :: "pyval \<Rightarrow> bool" where
  "is_str (PStr s) = True"
| "is_str v = False"

text \<open>
  \<^verbatim>\<open>int(v)\<close>. A string is read as a decimal literal: white space around it is dropped
  (here the code points 9 to 13, 32, 133 and 160; not 28 to 31), then comes an optional sign
  and digits, where single underscores may stand between two digits. Any other string, and
  a string with more than 4300 digits, raises \<^verbatim>\<open>ValueError\<close>; \<^verbatim>\<open>None\<close>, lists and
  dictionaries raise \<^verbatim>\<open>TypeError\<close>.
\<close>

definition int_isspace :: "char \<Rightarrow> bool" where
  "int_isspace c =
     (let n = (of_char c :: nat) in (9 \<le> n \<and> n \<le> 13) \<or> n = 32 \<or> n = 133 \<or> n = 160)"

definition is_digit :: "char \<Rightarrow> bool" where
  "is_digit c = (let n = (of_char c :: nat) in 48 \<le> n \<and> n \<le> 57)"

fun digits_ok :: "string \<Rightarrow> bool" where
  "digits_ok [] = False"
| "digits_ok [c] = is_digit c"
| "digits_ok (c # d # r) =
     (is_digit c \<and> (if d = CHR ''_'' then digits_ok r else digits_ok (d # r)))"

definition digits_val :: "string \<Rightarrow> int" where
  "digits_val ds =
     foldl (\<lambda>a c. if c = CHR ''_'' then a else 10 * a + (int (of_char c) - 48)) 0 ds"

definition int_of_str :: "string \<Rightarrow> int option" where
  "int_of_str s =
     (let t = rev (dropWhile int_isspace (rev (dropWhile int_isspace s)));
          ds = (if take 1 t = ''+'' \<or> take 1 t = ''-'' then drop 1 t else t)
      in if digits_ok ds \<and> length (filter is_digit ds) \<le> max_str_digits
         then Some (if take 1 t = ''-'' then - digits_val ds else digits_val ds)
         else None)"

fun py_int :: "pyval \<Rightarrow> exn + int" where
  "py_int PNone = Inl TypeError"
| "py_int (PBool b) = Inr (if b then 1 else 0)"
| "py_int (PInt n) = Inr n"
| "py_int (PStr s) = (case int_of_str s of None \<Rightarrow> Inl ValueError | Some n \<Rightarrow> Inr n)"
| "py_int (PList xs) = Inl TypeError"
| "py_int (PDict kvs) = Inl TypeError"

text \<open>
  \<^verbatim>\<open>data[k]\<close> with a string \<^verbatim>\<open>k\<close>: a dictionary gives the value or raises \<^verbatim>\<open>KeyError\<close>;
  a list or a string wants an integer index, and the other values cannot be subscripted:
  \<^verbatim>\<open>TypeError\<close>.
\<close>

fun py_getitem :: "pyval \<Rightarrow> string \<Rightarrow> exn + pyval" where
  "py_getitem (PDict kvs) k = (case map_of kvs k of None \<Rightarrow> Inl (KeyError k) | Some v \<Rightarrow> Inr v)"
| "py_getitem PNone k = Inl TypeError"
| "py_getitem (PBool b) k = Inl TypeError"
| "py_getitem (PInt n) k = Inl TypeError"
| "py_getitem (PStr s) k = Inl TypeError"
| "py_getitem (PList xs) k = Inl TypeError"

text \<open>
  \<^verbatim>\<open>k in data\<close> with a string \<^verbatim>\<open>k\<close>: a key of the dictionary, an element of the list, a
  substring of the string; \<^verbatim>\<open>None\<close>, booleans and integers are not iterable.
\<close>

fun is_substring :: "string \<Rightarrow> string \<Rightarrow> bool" where
  "is_substring k [] = (k = [])"
| "is_substring k (c # s) = (take (length k) (c # s) = k \<or> is_substring k s)"

fun py_contains :: "string \<Rightarrow> pyval \<Rightarrow> exn + bool" where
  "py_contains k (PDict kvs) = Inr (map_of kvs k \<noteq> None)"
| "py_contains k (PList xs) = Inr (PStr k \<in> set xs)"
| "py_contains k (PStr s) = Inr (is_substring k s)"
| "py_contains k PNone = Inl TypeError"
| "py_contains k (PBool b) = Inl TypeError"
| "py_contains k (PInt n) = Inl TypeError"

text \<open>\<^verbatim>\<open>all(k in data for k in ks)\<close>: stops at the first key that is not in.\<close>

fun all_in :: "string list \<Rightarrow> pyval \<Rightarrow> exn + bool" where
  "all_in [] d = Inr True"
| "all_in (k # ks) d =
     (case py_contains k d of
        Inl e \<Rightarrow> Inl e
      | Inr b \<Rightarrow> if b then all_in ks d else Inr False)"

text \<open>\<^verbatim>\<open>xs[0]\<close> on a sequence: the empty one raises \<^verbatim>\<open>IndexError\<close>.\<close>

fun py_index0 :: "'a list \<Rightarrow> exn + 'a" where
  "py_index0 [] = Inl IndexError"
| "py_index0 (x # xs) = Inr x"

section \<open>The table \<^verbatim>\<open>livro\<close>\<close>

text \<open>
  \<^verbatim>\<open>class Livro\<close> declares an \<^verbatim>\<open>AutoField\<close> \<^verbatim>\<open>id\<close> (the integer primary key), two
  \<^verbatim>\<open>CharField\<close>s, an \<^verbatim>\<open>IntegerField\<close> and a \<^verbatim>\<open>BooleanField\<close> with \<^verbatim>\<open>default=True\<close>. No
  field has \<^verbatim>\<open>null=True\<close>, so every column is \<^verbatim>\<open>NOT NULL\<close>. A row holds what the database
  stores: a cell is \<^verbatim>\<open>NULL\<close>, an integer or a text, and a boolean is stored as 1 or 0. The
  table is the list of its rows in the order they were inserted.

  The integers of the database have 64 bits. The driver checks every integer that a
  statement binds, a value to store or an id to compare with: outside the range from
  \<open>- 2\<^sup>6\<^sup>3\<close> to \<open>2\<^sup>6\<^sup>3 - 1\<close> it raises \<^verbatim>\<open>OverflowError\<close>, and the statement is not run.
  So every integer that a handler writes to a cell is in this range.

  One property of the engine is left out: the affinity of an integer column converts a
  text that looks like a number (\<^verbatim>\<open>'1e3'\<close> becomes 1000, \<^verbatim>\<open>'1.5'\<close> a real number), where the
  model stores the text as it is. Only \<^verbatim>\<open>editar\<close> with an \<^verbatim>\<open>ano\<close> that is a string can write
  such a text, and no statement below is about the \<^verbatim>\<open>ano\<close> it stores then.
\<close>

datatype cell = NULL | INTEGER int | TEXT string

definition sqlite_int :: "int \<Rightarrow> bool" where
  "sqlite_int n \<longleftrightarrow> - (2 ^ 63) \<le> n \<and> n < 2 ^ 63"

fun bind_ok :: "cell \<Rightarrow> bool" where
  "bind_ok NULL = True"
| "bind_ok (INTEGER n) = sqlite_int n"
| "bind_ok (TEXT s) = True"

record Livro =
  id_livro :: int
  titulo :: cell
  autor :: cell
  ano :: cell
  disponivel :: cell

type_synonym table = "Livro list"

definition Livro_disponivel_default :: pyval where
  "Livro_disponivel_default = PBool True"

text \<open>
  \<^verbatim>\<open>Field.db_value\<close> is applied to every value that is written: \<^verbatim>\<open>None\<close> stays \<^verbatim>\<open>None\<close>,
  every other value goes through the field's \<^verbatim>\<open>adapt\<close>. A \<^verbatim>\<open>CharField\<close> keeps a string
  and takes \<^verbatim>\<open>str(v)\<close> of anything else; a \<^verbatim>\<open>BooleanField\<close> takes \<^verbatim>\<open>bool(v)\<close>; an
  \<^verbatim>\<open>IntegerField\<close> takes \<^verbatim>\<open>int(v)\<close> and, when that raises \<^verbatim>\<open>ValueError\<close> (only a string
  does), passes the value on as it is, while a \<^verbatim>\<open>TypeError\<close> is not caught. A text of the
  model can always be encoded for the database.
\<close>

fun CharField_db_value :: "pyval \<Rightarrow> exn + cell" where
  "CharField_db_value PNone = Inr NULL"
| "CharField_db_value v = (case py_str v of Inl e \<Rightarrow> Inl e | Inr s \<Rightarrow> Inr (TEXT s))"

fun BooleanField_db_value :: "pyval \<Rightarrow> cell" where
  "BooleanField_db_value PNone = NULL"
| "BooleanField_db_value v = INTEGER (if py_bool v then 1 else 0)"

fun IntegerField_db_value :: "pyval \<Rightarrow> exn + cell" where
  "IntegerField_db_value PNone = Inr NULL"
| "IntegerField_db_value (PStr s) =
     (case int_of_str s of None \<Rightarrow> Inr (TEXT s) | Some n \<Rightarrow> Inr (INTEGER n))"
| "IntegerField_db_value v = (case py_int v of Inl e \<Rightarrow> Inl e | Inr n \<Rightarrow> Inr (INTEGER n))"

text \<open>
  \<^verbatim>\<open>Field.python_value\<close> is applied to every cell that is read, with the same \<^verbatim>\<open>adapt\<close>.
\<close>

fun CharField_python_value :: "cell \<Rightarrow> pyval" where
  "CharField_python_value NULL = PNone"
| "CharField_python_value (INTEGER n) = PStr (dec_str n)"
| "CharField_python_value (TEXT s) = PStr s"

fun IntegerField_python_value :: "cell \<Rightarrow> pyval" where
  "IntegerField_python_value NULL = PNone"
| "IntegerField_python_value (INTEGER n) = PInt n"
| "IntegerField_python_value (TEXT s) = (case int_of_str s of None \<Rightarrow> PStr s | Some n \<Rightarrow> PInt n)"

fun BooleanField_python_value :: "cell \<Rightarrow> pyval" where
  "BooleanField_python_value NULL = PNone"
| "BooleanField_python_value (INTEGER n) = PBool (n \<noteq> 0)"
| "BooleanField_python_value (TEXT s) = PBool (s \<noteq> [])"

text \<open>
  The primary key of a new row: 1 in an empty table, else one more than the largest key in
  the table (the column is declared without \<^verbatim>\<open>AUTOINCREMENT\<close>). When the largest key is
  \<open>2\<^sup>6\<^sup>3 - 1\<close> the engine picks an unused key at random instead; the model has no random
  choice and keeps the successor there, so what is stated about the key of a new row
  assumes that the successor is in range.
\<close>

definition next_id :: "table \<Rightarrow> int" where
  "next_id t = (case map id_livro t of [] \<Rightarrow> 1 | x # xs \<Rightarrow> fold max xs x + 1)"

text \<open>
  The values of a statement are converted by their fields, in the order of the columns,
  when the statement is built.
\<close>

datatype column = Titulo | Autor | Ano | Disponivel

fun column_index :: "column \<Rightarrow> nat" where
  "column_index Titulo = 0"
| "column_index Autor = 1"
| "column_index Ano = 2"
| "column_index Disponivel = 3"

fun column_db_value :: "column \<Rightarrow> pyval \<Rightarrow> exn + cell" where
  "column_db_value Titulo v = CharField_db_value v"
| "column_db_value Autor v = CharField_db_value v"
| "column_db_value Ano v = IntegerField_db_value v"
| "column_db_value Disponivel v = Inr (BooleanField_db_value v)"

fun convert :: "(column \<times> pyval) list \<Rightarrow> exn + (column \<times> cell) list" where
  "convert [] = Inr []"
| "convert ((f, v) # fvs) =
     (case column_db_value f v of
        Inl e \<Rightarrow> Inl e
      | Inr c \<Rightarrow> (case convert fvs of Inl e \<Rightarrow> Inl e | Inr cs \<Rightarrow> Inr ((f, c) # cs)))"

definition statement_values :: "(column \<times> pyval) list \<Rightarrow> exn + (column \<times> cell) list" where
  "statement_values fvs = convert (sort_key (\<lambda>fv. column_index (fst fv)) fvs)"

fun set_column :: "column \<times> cell \<Rightarrow> Livro \<Rightarrow> Livro" where
  "set_column (Titulo, c) r = r\<lparr>titulo := c\<rparr>"
| "set_column (Autor, c) r = r\<lparr>autor := c\<rparr>"
| "set_column (Ano, c) r = r\<lparr>ano := c\<rparr>"
| "set_column (Disponivel, c) r = r\<lparr>disponivel := c\<rparr>"

text \<open>
  \<^verbatim>\<open>Livro.create(titulo=.., autor=.., ano=.., disponivel=..)\<close>: the values are converted and
  bound, and the row is inserted unless a \<^verbatim>\<open>NOT NULL\<close> column would get \<^verbatim>\<open>NULL\<close>.
\<close>

definition Livro_create :: "table \<Rightarrow> pyval \<Rightarrow> pyval \<Rightarrow> pyval \<Rightarrow> pyval \<Rightarrow> exn + table" where
  "Livro_create t tv av yv dv =
     (case statement_values [(Titulo, tv), (Autor, av), (Ano, yv), (Disponivel, dv)] of
        Inl e \<Rightarrow> Inl e
      | Inr cs \<Rightarrow>
          if \<not> list_all bind_ok (map snd cs) then Inl OverflowError
          else if NULL \<in> snd ` set cs then Inl IntegrityError
          else Inr (t @ [fold set_column cs
                 \<lparr>id_livro = next_id t, titulo = NULL, autor = NULL, ano = NULL,
                  disponivel = NULL\<rparr>]))"

text \<open>
  \<^verbatim>\<open>Livro.select()\<close> and the two \<^verbatim>\<open>where\<close> clauses of the handlers. The query with an id is
  run when its first row is read, and binds the id then.
\<close>

definition Livro_select :: "table \<Rightarrow> Livro list" where
  "Livro_select t = t"

definition where_id :: "nat \<Rightarrow> Livro list \<Rightarrow> Livro list" where
  "where_id lid rows = filter (\<lambda>r. id_livro r = int lid) rows"

definition select_where_id :: "table \<Rightarrow> nat \<Rightarrow> exn + Livro list" where
  "select_where_id t lid =
     (if sqlite_int (int lid) then Inr (where_id lid (Livro_select t)) else Inl OverflowError)"

definition where_disponivel :: "Livro list \<Rightarrow> Livro list" where
  "where_disponivel rows = filter (\<lambda>r. disponivel r = BooleanField_db_value (PBool True)) rows"

text \<open>\<^verbatim>\<open>Livro.delete().where(Livro.id == lid).execute()\<close>.\<close>

definition Livro_delete :: "table \<Rightarrow> nat \<Rightarrow> exn + table" where
  "Livro_delete t lid =
     (if sqlite_int (int lid) then Inr (filter (\<lambda>r. id_livro r \<noteq> int lid) t)
      else Inl OverflowError)"

text \<open>
  \<^verbatim>\<open>Livro.update(field=value, ..).where(Livro.id == lid).execute()\<close>: the values are converted
  and bound, with the id; the statement fails as a whole, with \<^verbatim>\<open>IntegrityError\<close>, when a
  row has the key and a value is \<^verbatim>\<open>NULL\<close>; else every row with the key gets the new cells.
\<close>

definition Livro_update :: "table \<Rightarrow> (column \<times> pyval) list \<Rightarrow> nat \<Rightarrow> exn + table" where
  "Livro_update t fvs lid =
     (case statement_values fvs of
        Inl e \<Rightarrow> Inl e
      | Inr cs \<Rightarrow>
          if \<not> (list_all bind_ok (map snd cs) \<and> sqlite_int (int lid)) then Inl OverflowError
          else if where_id lid t \<noteq> [] \<and> NULL \<in> snd ` set cs then Inl IntegrityError
          else Inr (map (\<lambda>r. if id_livro r = int lid then fold set_column cs r else r) t))"

section \<open>Requests and responses\<close>

text \<open>
  A view function returns a value, calls \<^verbatim>\<open>abort\<close> with a status code and a description,
  or lets an exception escape. Flask answers a returned string or \<^verbatim>\<open>jsonify\<close> result with
  status 200, an \<^verbatim>\<open>abort\<close> with its code, and an escaped exception with 500; a view that
  returns \<^verbatim>\<open>None\<close> makes Flask raise \<^verbatim>\<open>TypeError\<close> itself, which is a 500 as well.
\<close>

datatype failure = Raise exn | Abort nat string

datatype reply = Ret_None | Ret_Text string | Ret_Json pyval

type_synonym result = "failure + reply"

fun status_code :: "result \<Rightarrow> nat" where
  "status_code (Inl (Raise e)) = 500"
| "status_code (Inl (Abort n d)) = n"
| "status_code (Inr Ret_None) = 500"
| "status_code (Inr (Ret_Text s)) = 200"
| "status_code (Inr (Ret_Json v)) = 200"

section \<open>The handlers of \<^verbatim>\<open>app.py\<close>\<close>

text \<open>
  Each handler takes the table and what the request carries: \<^verbatim>\<open>lid\<close>, which the route
  converter \<^verbatim>\<open><int:lid>\<close> makes a natural number, and \<^verbatim>\<open>body\<close>, the value that
  \<^verbatim>\<open>request.get_json(force=True)\<close> has parsed. A handler that writes returns the table too.
\<close>

definition seed1 :: Livro where
  "seed1 = \<lparr>id_livro = 1, titulo = TEXT ''Estruturas de Dados'', autor = TEXT ''N. Wirth'',
             ano = INTEGER 1976, disponivel = INTEGER 1\<rparr>"

definition seed2 :: Livro where
  "seed2 = \<lparr>id_livro = 2, titulo = TEXT ''Clean Code'', autor = TEXT ''R. Martin'',
             ano = INTEGER 2008, disponivel = INTEGER 1\<rparr>"

definition init_db :: "table \<Rightarrow> exn + table" where
  "init_db t =
     (if length (Livro_select t) = 0
      then (case Livro_create t (PStr ''Estruturas de Dados'') (PStr ''N. Wirth'') (PInt 1976)
                   (PBool True) of
              Inl e \<Rightarrow> Inl e
            | Inr t1 \<Rightarrow> Livro_create t1 (PStr ''Clean Code'') (PStr ''R. Martin'') (PInt 2008)
                         (PBool True))
      else Inr t)"

text \<open>The dictionary \<^verbatim>\<open>item\<close> that both list handlers build for a row.\<close>

definition item :: "Livro \<Rightarrow> pyval" where
  "item livro = PDict
     [(''titulo'', CharField_python_value (titulo livro)),
      (''autor'', CharField_python_value (autor livro)),
      (''ano'', IntegerField_python_value (ano livro)),
      (''id'', PInt (id_livro livro)),
      (''disponivel'', BooleanField_python_value (disponivel livro))]"

definition listar_livros :: "table \<Rightarrow> result" where
  "listar_livros t =
     (let livros = Livro_select t;
          lst = map item livros
      in Inr (Ret_Json (PList lst)))"

definition obter_livro :: "table \<Rightarrow> nat \<Rightarrow> result" where
  "obter_livro t lid =
     (case select_where_id t lid of
        Inl e \<Rightarrow> Inl (Raise e)
      | Inr livro \<Rightarrow>
          (case py_index0 livro of
             Inl e \<Rightarrow> Inl (Raise e)
           | Inr l0 \<Rightarrow> Inr (Ret_Json (PDict
               [(''titulo'', CharField_python_value (titulo l0)),
                (''autor'', CharField_python_value (autor l0)),
                (''ano'', IntegerField_python_value (ano l0))]))))"

definition obrig :: "string list" where
  "obrig = [''titulo'', ''autor'', ''ano'']"

definition campos_obrigatorios :: string where
  "campos_obrigatorios = ''Campos obrigat'' @ [CHR 0xF3] @ ''rios: titulo, autor, ano''"

definition criar_livro :: "table \<Rightarrow> pyval \<Rightarrow> result \<times> table" where
  "criar_livro t body =
     (let data = py_or body (PDict []) in
      case all_in obrig data of
        Inl e \<Rightarrow> (Inl (Raise e), t)
      | Inr ok \<Rightarrow>
          if \<not> ok then (Inl (Abort 400 campos_obrigatorios), t)
          else
            (case py_getitem data ''titulo'' of
               Inl e \<Rightarrow> (Inl (Raise e), t)
             | Inr tv \<Rightarrow>
            (case py_str tv of
               Inl e \<Rightarrow> (Inl (Raise e), t)
             | Inr ts \<Rightarrow>
            (case py_getitem data ''autor'' of
               Inl e \<Rightarrow> (Inl (Raise e), t)
             | Inr av \<Rightarrow>
            (case py_str av of
               Inl e \<Rightarrow> (Inl (Raise e), t)
             | Inr us \<Rightarrow>
            (case py_getitem data ''ano'' of
               Inl e \<Rightarrow> (Inl (Raise e), t)
             | Inr yv \<Rightarrow>
            (case py_int yv of
               Inl e \<Rightarrow> (Inl (Raise e), t)
             | Inr n \<Rightarrow>
            (case Livro_create t (PStr (strip ts)) (PStr (strip us)) (PInt n)
                    Livro_disponivel_default of
               Inl e \<Rightarrow> (Inl (Raise e), t)
             | Inr t' \<Rightarrow> (Inr (Ret_Text ''Livro adicionado com sucesso''), t')))))))))"

definition remover_livro :: "table \<Rightarrow> nat \<Rightarrow> result \<times> table" where
  "remover_livro t lid =
     (case Livro_delete t lid of
        Inl e \<Rightarrow> (Inl (Raise e), t)
      | Inr t' \<Rightarrow> (Inr (Ret_Text ''Livro removido com sucesso!''), t'))"

definition atualizar_disponibilidade :: "table \<Rightarrow> nat \<Rightarrow> pyval \<Rightarrow> result \<times> table" where
  "atualizar_disponibilidade t lid body =
     (let data = py_or body (PDict []) in
      case py_getitem data ''disponivel'' of
        Inl e \<Rightarrow> (Inl (Raise e), t)
      | Inr dv \<Rightarrow>
          (case Livro_update t [(Disponivel, dv)] lid of
             Inl e \<Rightarrow> (Inl (Raise e), t)
           | Inr t' \<Rightarrow> (Inr (Ret_Text ''Livro atualizado com sucesso''), t')))"

text \<open>
  \<^verbatim>\<open>listar_livros_disponiveis\<close> builds its list and ends there: the function has no
  \<^verbatim>\<open>return\<close>, so it returns \<^verbatim>\<open>None\<close>. (The \<^verbatim>\<open>return jsonify(lst)\<close> that would belong
  to it stands after the \<^verbatim>\<open>return\<close> of \<^verbatim>\<open>editar\<close>, where it is never reached.)
\<close>

definition disponiveis_lst :: "table \<Rightarrow> pyval list" where
  "disponiveis_lst t = (let livros = where_disponivel (Livro_select t) in map item livros)"

definition listar_livros_disponiveis :: "table \<Rightarrow> result" where
  "listar_livros_disponiveis t = (let lst = disponiveis_lst t in Inr Ret_None)"

definition editar :: "table \<Rightarrow> nat \<Rightarrow> pyval \<Rightarrow> result \<times> table" where
  "editar t lid body =
     (let data = py_or body (PDict []) in
      case py_getitem data ''disponivel'' of
        Inl e \<Rightarrow> (Inl (Raise e), t)
      | Inr dv \<Rightarrow>
     (case py_getitem data ''autor'' of
        Inl e \<Rightarrow> (Inl (Raise e), t)
      | Inr av \<Rightarrow>
     (case py_getitem data ''titulo'' of
        Inl e \<Rightarrow> (Inl (Raise e), t)
      | Inr tv \<Rightarrow>
     (case py_getitem data ''ano'' of
        Inl e \<Rightarrow> (Inl (Raise e), t)
      | Inr yv \<Rightarrow>
     (case Livro_update t [(Disponivel, dv), (Autor, av), (Titulo, tv), (Ano, yv)] lid of
        Inl e \<Rightarrow> (Inl (Raise e), t)
      | Inr t' \<Rightarrow> (Inr (Ret_Text ''Livro editado com sucesso''), t'))))))"

section \<open>The service as a state machine\<close>

text \<open>
  The routes of \<^verbatim>\<open>app.py\<close>, and the table over a run of the service. \<^verbatim>\<open>init_db()\<close> runs
  when the module is loaded, first on the empty table of a new database file and again
  at every restart of the process, on the table as it is then.
\<close>

datatype request =
    GET_livros
  | GET_livro nat
  | POST_livros pyval
  | DELETE_livro nat
  | PATCH_disponibilidade nat pyval
  | GET_disponiveis
  | PATCH_editar nat pyval

fun dispatch :: "table \<Rightarrow> request \<Rightarrow> result \<times> table" where
  "dispatch t GET_livros = (listar_livros t, t)"
| "dispatch t (GET_livro lid) = (obter_livro t lid, t)"
| "dispatch t (POST_livros body) = criar_livro t body"
| "dispatch t (DELETE_livro lid) = remover_livro t lid"
| "dispatch t (PATCH_disponibilidade lid body) = atualizar_disponibilidade t lid body"
| "dispatch t GET_disponiveis = (listar_livros_disponiveis t, t)"
| "dispatch t (PATCH_editar lid body) = editar t lid body"

datatype event = Request request | Restart

fun step :: "table \<Rightarrow> event \<Rightarrow> table" where
  "step t (Request r) = snd (dispatch t r)"
| "step t Restart = (case init_db t of Inl e \<Rightarrow> t | Inr t' \<Rightarrow> t')"

fun run :: "table \<Rightarrow> event list \<Rightarrow> table" where
  "run t [] = t"
| "run t (e # es) = run (step t e) es"

definition initial :: table where
  "initial = step [] Restart"

text \<open>
  The invariant of the data model: no two rows share an \<^verbatim>\<open>id\<close>, and no row has \<^verbatim>\<open>NULL\<close>
  for its \<^verbatim>\<open>disponivel\<close>.
\<close>

definition table_inv :: "table \<Rightarrow> bool" where
  "table_inv t \<longleftrightarrow> distinct (map id_livro t) \<and> list_all (\<lambda>r. disponivel r \<noteq> NULL) t"

section \<open>Evaluating the model\<close>

lemma sqlite_int_small: "\<bar>n\<bar> < 2 ^ 63 \<Longrightarrow> sqlite_int n"
  by (auto simp: sqlite_int_def)

lemma sqlite_int_bool: "sqlite_int (if b then 1 else 0)"
  by (simp add: sqlite_int_def)

lemma int_str_ok_sqlite_int: "sqlite_int n \<Longrightarrow> int_str_ok n"
proof -
  assume "sqlite_int n"
  then have "\<bar>n\<bar> \<le> 2 ^ 63" by (auto simp: sqlite_int_def)
  also have "(2::int) ^ 63 < 10 ^ 63" by simp
  also have "(10::int) ^ 63 \<le> 10 ^ max_str_digits"
    by (rule power_increasing) (simp_all add: max_str_digits_def)
  finally show ?thesis by (simp add: int_str_ok_def)
qed

lemma py_str_PStr: "py_str (PStr s) = Inr s"
  by (simp add: py_str_def str_of_def)

lemma py_str_str_ok: "str_ok v \<Longrightarrow> py_str v = Inr (str_of v)"
  by (simp add: py_str_def)

lemma CharField_db_value_PStr: "CharField_db_value (PStr s) = Inr (TEXT s)"
  by (simp add: py_str_PStr)

lemma statement_values_all:
  "statement_values [(Titulo, tv), (Autor, av), (Ano, yv), (Disponivel, dv)] =
     convert [(Titulo, tv), (Autor, av), (Ano, yv), (Disponivel, dv)]"
  by (simp add: statement_values_def)

lemma statement_values_editar:
  "statement_values [(Disponivel, dv), (Autor, av), (Titulo, tv), (Ano, yv)] =
     convert [(Titulo, tv), (Autor, av), (Ano, yv), (Disponivel, dv)]"
  by (simp add: statement_values_def)

lemma statement_values_disponivel:
  "statement_values [(Disponivel, dv)] = Inr [(Disponivel, BooleanField_db_value dv)]"
  by (simp add: statement_values_def)

lemma bind_ok_BooleanField: "bind_ok (BooleanField_db_value v)"
  by (cases v) (simp_all add: sqlite_int_bool)

lemma Livro_create_ok:
  "Livro_create t (PStr s) (PStr a) (PInt n) (PBool b) =
     (if sqlite_int n
      then Inr (t @ [\<lparr>id_livro = next_id t, titulo = TEXT s, autor = TEXT a, ano = INTEGER n,
                       disponivel = INTEGER (if b then 1 else 0)\<rparr>])
      else Inl OverflowError)"
  by (simp add: Livro_create_def statement_values_all py_str_PStr sqlite_int_bool)

lemma init_db_empty: "init_db [] = Inr [seed1, seed2]"
  by (simp add: init_db_def Livro_select_def Livro_create_ok next_id_def sqlite_int_def
      seed1_def seed2_def)

lemma initial_seeds: "initial = [seed1, seed2]"
  by (simp add: initial_def init_db_empty)

text \<open>
  A run on a new database: a book is created and gets the key 3, it is marked as not
  available, the list that \<^verbatim>\<open>listar_livros_disponiveis\<close> builds then has the two seeded
  books, and deleting the book gives the seeded table again.
\<close>

lemma example_run:
  "run initial
     [Request (POST_livros
        (PDict [(''titulo'', PStr ''X''), (''autor'', PStr ''Y''), (''ano'', PInt 2020)]))] =
   initial @ [\<lparr>id_livro = 3, titulo = TEXT ''X'', autor = TEXT ''Y'', ano = INTEGER 2020,
                disponivel = INTEGER 1\<rparr>]"
  "run initial
     [Request (POST_livros
        (PDict [(''titulo'', PStr ''X''), (''autor'', PStr ''Y''), (''ano'', PInt 2020)])),
      Request (PATCH_disponibilidade 3 (PDict [(''disponivel'', PBool False)]))] =
   initial @ [\<lparr>id_livro = 3, titulo = TEXT ''X'', autor = TEXT ''Y'', ano = INTEGER 2020,
                disponivel = INTEGER 0\<rparr>]"
  "disponiveis_lst (initial @ [\<lparr>id_livro = 3, titulo = TEXT ''X'', autor = TEXT ''Y'',
       ano = INTEGER 2020, disponivel = INTEGER 0\<rparr>]) = [item seed1, item seed2]"
  "run initial
     [Request (POST_livros
        (PDict [(''titulo'', PStr ''X''), (''autor'', PStr ''Y''), (''ano'', PInt 2020)])),
      Request (PATCH_disponibilidade 3 (PDict [(''disponivel'', PBool False)])),
      Request (DELETE_livro 3)] =
   initial"
  by (simp_all add: criar_livro_def remover_livro_def atualizar_disponibilidade_def py_or_def
      obrig_def Livro_create_ok Livro_update_def Livro_delete_def Livro_select_def where_id_def
      where_disponivel_def disponiveis_lst_def next_id_def py_str_PStr strip_def py_isspace_def
      statement_values_disponivel sqlite_int_def
      Livro_disponivel_default_def initial_seeds seed1_def seed2_def)

section \<open>Strings\<close>

text \<open>
  What \<open>strip\<close> returns is the string without a run of white space at each end, and it
  neither starts nor ends with white space.
\<close>

lemma strip_inside:
  "s = takeWhile py_isspace s @ strip s @ rev (takeWhile py_isspace (rev (dropWhile py_isspace s)))"
proof -
  let ?d = "dropWhile py_isspace s"
  have "rev (takeWhile py_isspace (rev ?d) @ dropWhile py_isspace (rev ?d)) = rev (rev ?d)"
    by (simp only: takeWhile_dropWhile_id)
  then have "?d = strip s @ rev (takeWhile py_isspace (rev ?d))"
    by (simp only: rev_append rev_rev_ident strip_def)
  moreover have "s = takeWhile py_isspace s @ ?d" by simp
  ultimately show ?thesis by simp
qed

lemma last_dropWhile: "dropWhile P xs \<noteq> [] \<Longrightarrow> last (dropWhile P xs) = last xs"
  by (induction xs) auto

lemma strip_trimmed:
  assumes "strip s \<noteq> []"
  shows "\<not> py_isspace (hd (strip s)) \<and> \<not> py_isspace (last (strip s))"
proof -
  let ?d = "dropWhile py_isspace s"
  let ?e = "dropWhile py_isspace (rev ?d)"
  from assms have e: "?e \<noteq> []" by (simp add: strip_def)
  have d: "?d \<noteq> []"
    using e by (cases "?d") simp_all
  from e have "\<not> py_isspace (hd ?e)" by (rule hd_dropWhile)
  moreover from e have "last (strip s) = hd ?e" by (simp add: strip_def last_rev)
  moreover from e have "hd (strip s) = last ?e" by (simp add: strip_def hd_rev)
  moreover from e have "last ?e = last (rev ?d)" by (rule last_dropWhile)
  moreover from d have "last (rev ?d) = hd ?d" by (simp add: last_rev)
  moreover from d have "\<not> py_isspace (hd ?d)" by (rule hd_dropWhile)
  ultimately show ?thesis by simp
qed

lemma strip_unchanged:
  assumes "s \<noteq> []" and "\<not> py_isspace (hd s)" and "\<not> py_isspace (last s)"
  shows "strip s = s"
proof -
  from assms have "dropWhile py_isspace s = s"
    by (cases s) simp_all
  moreover from assms have "dropWhile py_isspace (rev s) = rev s"
    by (cases "rev s") (simp_all add: hd_rev)
  ultimately show ?thesis by (simp add: strip_def)
qed

lemma digit_char_not_space: "d < 10 \<Longrightarrow> \<not> py_isspace (digit_char d)"
proof -
  assume "d < 10"
  then have "digit_char d \<in> set ''0123456789''"
    unfolding digit_char_def by (intro nth_mem) simp
  then show ?thesis by (auto simp: py_isspace_def)
qed

lemma dec_digits_shape:
  "dec_digits n \<noteq> [] \<and> \<not> py_isspace (hd (dec_digits n)) \<and> \<not> py_isspace (last (dec_digits n))"
proof (induction n rule: dec_digits.induct)
  case (1 n)
  show ?case
  proof (cases "n < 10")
    case True
    then show ?thesis by (simp add: digit_char_not_space)
  next
    case False
    with 1 show ?thesis
      by (subst (1 2 3) dec_digits.simps) (simp add: digit_char_not_space del: dec_digits.simps)
  qed
qed

lemma strip_dec_str: "strip (dec_str k) = dec_str k"
proof (rule strip_unchanged)
  show "dec_str k \<noteq> []"
    using dec_digits_shape by (simp add: dec_str_def del: dec_digits.simps)
  show "\<not> py_isspace (hd (dec_str k))"
    using dec_digits_shape by (simp add: dec_str_def py_isspace_def del: dec_digits.simps)
  show "\<not> py_isspace (last (dec_str k))"
    using dec_digits_shape by (simp add: dec_str_def del: dec_digits.simps)
qed

text \<open>
  The string that \<open>criar_livro\<close> stores for a value that is not a string: the decimal
  form of an integer, \<^verbatim>\<open>True\<close> or \<^verbatim>\<open>False\<close> for a boolean, \<^verbatim>\<open>None\<close> for \<^verbatim>\<open>null\<close>.
\<close>

lemma strip_str_of_PInt: "strip (str_of (PInt k)) = dec_str k"
  by (simp add: str_of_def strip_dec_str)

lemma strip_str_of_PBool: "strip (str_of (PBool b)) = (if b then ''True'' else ''False'')"
  by (simp add: str_of_def strip_def py_isspace_def)

lemma strip_str_of_PNone: "strip (str_of PNone) = ''None''"
  by (simp add: str_of_def strip_def py_isspace_def)

section \<open>Writing to the table\<close>

lemma py_or_PDict: "py_or (PDict kvs) (PDict []) = PDict kvs"
  by (cases kvs) (simp_all add: py_or_def)

lemma BooleanField_db_value_NULL:
  "BooleanField_db_value v = NULL \<longleftrightarrow> v = PNone"
  "NULL = BooleanField_db_value v \<longleftrightarrow> v = PNone"
  by (cases v; simp)+

lemma where_id_empty: "where_id lid t = [] \<longleftrightarrow> list_all (\<lambda>r. id_livro r \<noteq> int lid) t"
  by (simp add: where_id_def filter_empty_conv list_all_iff)

lemma map_no_match:
  assumes "where_id lid t = []"
  shows "map (\<lambda>r. if id_livro r = int lid then g r else r) t = t"
    and "map (\<lambda>r. if id_livro r = int lid \<and> c then g r else r) t = t"
  using assms by (simp_all add: where_id_empty list_all_iff map_idI)

text \<open>The key of a new row is larger than every key in the table.\<close>

lemma fold_max_upper: "(x::int) \<in> set (a # xs) \<Longrightarrow> x \<le> fold max xs a"
  using Max_ge [of "set (a # xs)" x] by (simp only: Max.set_eq_fold [symmetric] List.finite_set)

lemma next_id_greater: "r \<in> set t \<Longrightarrow> id_livro r < next_id t"
proof -
  assume r: "r \<in> set t"
  then obtain a xs where ids: "map id_livro t = a # xs"
    by (cases t) auto
  from r have "id_livro r \<in> set (map id_livro t)" by simp
  with ids have "id_livro r \<le> fold max xs a"
    using fold_max_upper by metis
  with ids show ?thesis by (simp add: next_id_def)
qed

lemma next_id_fresh: "next_id t \<notin> set (map id_livro t)"
  using next_id_greater by fastforce

lemma set_column_id: "id_livro (set_column fc r) = id_livro r"
  by (cases "(fc, r)" rule: set_column.cases) simp_all

lemma fold_set_column_id: "id_livro (fold set_column cs r) = id_livro r"
  by (induction cs arbitrary: r) (simp_all add: set_column_id)

lemma set_column_disponivel:
  "disponivel (set_column (f, c) r) = (if f = Disponivel then c else disponivel r)"
  by (cases f) simp_all

lemma fold_set_column_disponivel:
  "NULL \<notin> snd ` set cs \<Longrightarrow> disponivel r \<noteq> NULL \<Longrightarrow> disponivel (fold set_column cs r) \<noteq> NULL"
proof (induction cs arbitrary: r)
  case Nil
  then show ?case by simp
next
  case (Cons fc cs)
  obtain f c where fc: "fc = (f, c)" by (cases fc)
  with Cons.prems have "disponivel (set_column fc r) \<noteq> NULL"
    by (auto simp: set_column_disponivel)
  with Cons show ?case by simp
qed

text \<open>
  A row that \<open>Livro_create\<close> inserts has all four columns, so none of its cells is the
  \<open>NULL\<close> of the row that the columns are set in.
\<close>

lemma Livro_create_row:
  assumes "Livro_create t tv av yv dv = Inr t'"
  shows "\<exists>c1 c2 c3 c4. c4 \<noteq> NULL \<and>
     t' = t @ [\<lparr>id_livro = next_id t, titulo = c1, autor = c2, ano = c3, disponivel = c4\<rparr>]"
  using assms
  by (auto simp: Livro_create_def statement_values_all split: sum.splits if_splits)

lemma Livro_update_disponivel:
  "Livro_update t [(Disponivel, dv)] lid =
     (if \<not> sqlite_int (int lid) then Inl OverflowError
      else if where_id lid t \<noteq> [] \<and> dv = PNone then Inl IntegrityError
      else Inr (map (\<lambda>r. if id_livro r = int lid
                           then r\<lparr>disponivel := BooleanField_db_value dv\<rparr> else r) t))"
  by (simp add: Livro_update_def statement_values_disponivel BooleanField_db_value_NULL
      bind_ok_BooleanField)

lemma Livro_update_no_match:
  "where_id lid t = [] \<Longrightarrow> Livro_update t fvs lid = Inr t' \<Longrightarrow> t' = t"
  by (auto simp: Livro_update_def map_no_match split: sum.splits if_splits)

lemma Livro_update_error_or_map:
  "Livro_update t fvs lid = Inr t' \<Longrightarrow>
   \<exists>cs. (where_id lid t = [] \<or> NULL \<notin> snd ` set cs) \<and>
        t' = map (\<lambda>r. if id_livro r = int lid then fold set_column cs r else r) t"
  by (auto simp: Livro_update_def split: sum.splits if_splits)

section \<open>The handlers, case by case\<close>

lemma obter_livro_no_row:
  "sqlite_int (int lid) \<Longrightarrow> where_id lid t = [] \<Longrightarrow> obter_livro t lid = Inl (Raise IndexError)"
  by (simp add: obter_livro_def select_where_id_def Livro_select_def)

lemma disponiveis_lst_eq:
  "disponiveis_lst t = map item (filter (\<lambda>r. disponivel r = INTEGER 1) t)"
  by (simp add: disponiveis_lst_def where_disponivel_def Livro_select_def)

lemma disponiveis_lst_length:
  "length (disponiveis_lst t) = length t - length (filter (\<lambda>r. disponivel r \<noteq> INTEGER 1) t)"
  using sum_length_filter_compl [of "\<lambda>r. disponivel r = INTEGER 1" t]
  by (simp add: disponiveis_lst_eq)

lemma all_in_obrig:
  "map_of kvs ''titulo'' = Some tv \<Longrightarrow> map_of kvs ''autor'' = Some av \<Longrightarrow>
   map_of kvs ''ano'' = Some yv \<Longrightarrow> all_in obrig (PDict kvs) = Inr True"
  by (simp add: obrig_def)

lemma criar_livro_present:
  assumes "map_of kvs ''titulo'' = Some tv" and "map_of kvs ''autor'' = Some av"
    and "map_of kvs ''ano'' = Some yv"
    and "py_str tv = Inr ts" and "py_str av = Inr us" and "py_int yv = Inr n"
  shows "criar_livro t (PDict kvs) =
    (if sqlite_int n
     then (Inr (Ret_Text ''Livro adicionado com sucesso''),
         t @ [\<lparr>id_livro = next_id t, titulo = TEXT (strip ts), autor = TEXT (strip us),
               ano = INTEGER n, disponivel = INTEGER 1\<rparr>])
     else (Inl (Raise OverflowError), t))"
  using assms
  by (simp add: criar_livro_def py_or_PDict all_in_obrig Livro_create_ok
      Livro_disponivel_default_def)

lemma remover_livro_in_range:
  "sqlite_int (int lid) \<Longrightarrow>
   remover_livro t lid =
     (Inr (Ret_Text ''Livro removido com sucesso!''), filter (\<lambda>r. id_livro r \<noteq> int lid) t)"
  by (simp add: remover_livro_def Livro_delete_def)

lemma remover_livro_out_of_range:
  "\<not> sqlite_int (int lid) \<Longrightarrow> remover_livro t lid = (Inl (Raise OverflowError), t)"
  by (simp add: remover_livro_def Livro_delete_def)

lemma atualizar_disponibilidade_no_field:
  "map_of kvs ''disponivel'' = None \<Longrightarrow>
   atualizar_disponibilidade t lid (PDict kvs) = (Inl (Raise (KeyError ''disponivel'')), t)"
  by (simp add: atualizar_disponibilidade_def py_or_PDict)

lemma atualizar_disponibilidade_field:
  assumes "map_of kvs ''disponivel'' = Some dv"
  shows "atualizar_disponibilidade t lid (PDict kvs) =
     (if \<not> sqlite_int (int lid) then (Inl (Raise OverflowError), t)
      else if where_id lid t \<noteq> [] \<and> dv = PNone then (Inl (Raise IntegrityError), t)
      else (Inr (Ret_Text ''Livro atualizado com sucesso''),
            map (\<lambda>r. if id_livro r = int lid
                      then r\<lparr>disponivel := BooleanField_db_value dv\<rparr> else r) t))"
  using assms by (simp add: atualizar_disponibilidade_def py_or_PDict Livro_update_disponivel)

lemma atualizar_disponibilidade_table:
  assumes "map_of kvs ''disponivel'' = Some dv"
  shows "snd (atualizar_disponibilidade t lid (PDict kvs)) =
     map (\<lambda>r. if id_livro r = int lid \<and> (dv \<noteq> PNone \<and> sqlite_int (int lid))
               then r\<lparr>disponivel := BooleanField_db_value dv\<rparr> else r) t"
proof (cases "where_id lid t = []")
  case True
  with assms show ?thesis
    by (simp add: atualizar_disponibilidade_field map_no_match)
next
  case False
  with assms show ?thesis
    by (simp add: atualizar_disponibilidade_field)
qed

lemma editar_no_match: "where_id lid t = [] \<Longrightarrow> snd (editar t lid body) = t"
  by (auto simp: editar_def Let_def split: sum.splits dest: Livro_update_no_match)

lemma editar_typed:
  assumes "map_of kvs ''titulo'' = Some (PStr s)" and "map_of kvs ''autor'' = Some (PStr a)"
    and "map_of kvs ''ano'' = Some (PInt n)" and "map_of kvs ''disponivel'' = Some (PBool b)"
    and "sqlite_int n" and "sqlite_int (int lid)"
  shows "editar t lid (PDict kvs) =
     (Inr (Ret_Text ''Livro editado com sucesso''),
      map (\<lambda>r. if id_livro r = int lid
                then r\<lparr>titulo := TEXT s, autor := TEXT a, ano := INTEGER n,
                       disponivel := INTEGER (if b then 1 else 0)\<rparr>
                else r) t)"
  using assms
  by (simp add: editar_def py_or_PDict Livro_update_def statement_values_editar py_str_PStr
      sqlite_int_bool)

section \<open>The invariant, step by step\<close>

lemma table_inv_Livro_create:
  assumes "table_inv t" and "Livro_create t tv av yv dv = Inr t'"
  shows "table_inv t'"
proof -
  from assms(2) obtain c1 c2 c3 c4 where "c4 \<noteq> NULL"
    and "t' = t @ [\<lparr>id_livro = next_id t, titulo = c1, autor = c2, ano = c3, disponivel = c4\<rparr>]"
    using Livro_create_row by blast
  with assms(1) next_id_fresh [of t] show ?thesis
    by (simp add: table_inv_def)
qed

lemma table_inv_Livro_delete: "table_inv t \<Longrightarrow> Livro_delete t lid = Inr t' \<Longrightarrow> table_inv t'"
  by (auto simp: table_inv_def Livro_delete_def distinct_map_filter list_all_iff split: if_splits)

lemma table_inv_Livro_update:
  assumes "table_inv t" and "Livro_update t fvs lid = Inr t'"
  shows "table_inv t'"
proof -
  from assms(2) obtain cs where cs: "where_id lid t = [] \<or> NULL \<notin> snd ` set cs"
    and t': "t' = map (\<lambda>r. if id_livro r = int lid then fold set_column cs r else r) t"
    using Livro_update_error_or_map by blast
  have ids: "map id_livro t' = map id_livro t"
    by (simp add: t' fold_set_column_id cong: if_cong)
  from cs show ?thesis
  proof
    assume "where_id lid t = []"
    then have "t' = t" by (simp add: t' map_no_match)
    with assms(1) show ?thesis by simp
  next
    assume "NULL \<notin> snd ` set cs"
    with assms(1) have "list_all (\<lambda>r. disponivel r \<noteq> NULL) t'"
      by (auto simp: t' table_inv_def list_all_iff fold_set_column_disponivel)
    with assms(1) ids show ?thesis by (simp add: table_inv_def)
  qed
qed

lemma table_inv_criar_livro: "table_inv t \<Longrightarrow> table_inv (snd (criar_livro t body))"
  by (auto simp: criar_livro_def Let_def split: sum.splits dest: table_inv_Livro_create)

lemma table_inv_remover_livro: "table_inv t \<Longrightarrow> table_inv (snd (remover_livro t lid))"
  by (auto simp: remover_livro_def split: sum.splits dest: table_inv_Livro_delete)

lemma table_inv_atualizar_disponibilidade:
  "table_inv t \<Longrightarrow> table_inv (snd (atualizar_disponibilidade t lid body))"
  by (auto simp: atualizar_disponibilidade_def Let_def split: sum.splits dest: table_inv_Livro_update)

lemma table_inv_editar: "table_inv t \<Longrightarrow> table_inv (snd (editar t lid body))"
  by (auto simp: editar_def Let_def split: sum.splits dest: table_inv_Livro_update)

lemma table_inv_init_db: "table_inv t \<Longrightarrow> init_db t = Inr t' \<Longrightarrow> table_inv t'"
  by (auto simp: init_db_def split: if_splits sum.splits dest: table_inv_Livro_create)

lemma table_inv_step: "table_inv t \<Longrightarrow> table_inv (step t e)"
proof (cases e)
  case (Request r)
  assume "table_inv t"
  then have "table_inv (snd (dispatch t r))"
    by (cases r) (simp_all add: table_inv_criar_livro table_inv_remover_livro
        table_inv_atualizar_disponibilidade table_inv_editar)
  with Request show ?thesis by simp
next
  case Restart
  assume "table_inv t"
  with Restart show ?thesis
    by (auto split: sum.splits dest: table_inv_init_db)
qed

lemma table_inv_run: "table_inv t \<Longrightarrow> table_inv (run t es)"
  by (induction es arbitrary: t) (simp_all add: table_inv_step)

lemma table_inv_empty: "table_inv []"
  by (simp add: table_inv_def)

lemma table_inv_initial: "table_inv initial"
  unfolding initial_def using table_inv_empty by (rule table_inv_step)

section \<open>Getting a book by its id\<close>

text \<open>
  C1. The claim: for an id that matches no row, \<^verbatim>\<open>obter_livro\<close> answers with a not-found
  error, status 404. The code reads \<^verbatim>\<open>livro[0]\<close> from the empty result: on the seeded
  table and the id 99 no row matches, \<^verbatim>\<open>IndexError\<close> escapes the handler, and the status
  is 500.
\<close>

theorem obter_livro_missing_id:
  "where_id 99 initial = [] \<and>
   obter_livro initial 99 = Inl (Raise IndexError) \<and>
   status_code (obter_livro initial 99) = 500"
  by (simp add: obter_livro_def select_where_id_def sqlite_int_def Livro_select_def where_id_def
      initial_seeds seed1_def seed2_def)

section \<open>Listing the available books\<close>

text \<open>
  C2. The claim: \<^verbatim>\<open>listar_livros_disponiveis\<close> returns the array of the rows that are
  available. The code builds that list (\<open>disponiveis_lst\<close>) and returns nothing: on every
  table the view returns \<^verbatim>\<open>None\<close>, and the status is 500.
\<close>

theorem listar_livros_disponiveis_returns_none:
  "listar_livros_disponiveis t = Inr Ret_None \<and> status_code (listar_livros_disponiveis t) = 500"
  by (simp add: listar_livros_disponiveis_def)

section \<open>Creating a book\<close>

text \<open>
  C3, as amended. Take a payload that has \<^verbatim>\<open>titulo\<close>, \<^verbatim>\<open>autor\<close> and \<^verbatim>\<open>ano\<close>, where \<^verbatim>\<open>int\<close>
  accepts the \<^verbatim>\<open>ano\<close> and gives an integer of the 64-bit range (and where \<^verbatim>\<open>str\<close> accepts
  \<^verbatim>\<open>titulo\<close> and \<^verbatim>\<open>autor\<close>, as it does for every string and every value of a parsed body),
  and a table in which the successor of the largest key is in that range. Then
  \<^verbatim>\<open>criar_livro\<close> succeeds and appends one row: its \<^verbatim>\<open>titulo\<close> and \<^verbatim>\<open>autor\<close> are the values
  supplied (\<^verbatim>\<open>str\<close> of a value that is not a string) without the white space around them,
  its \<^verbatim>\<open>ano\<close> is \<^verbatim>\<open>int\<close> of the value supplied (for an integer, the integer itself), its
  \<^verbatim>\<open>id\<close> is the key of no row of the table, and its \<^verbatim>\<open>disponivel\<close> is stored as 1 and read
  as true, whatever \<^verbatim>\<open>disponivel\<close> the payload has.
\<close>

theorem criar_livro_inserts:
  assumes "map_of kvs ''titulo'' = Some tv" and "map_of kvs ''autor'' = Some av"
    and "map_of kvs ''ano'' = Some yv"
    and "str_ok tv" and "str_ok av"
    and "py_int yv = Inr n" and "sqlite_int n"
    and "sqlite_int (next_id t)"
  shows "criar_livro t (PDict kvs) =
           (Inr (Ret_Text ''Livro adicionado com sucesso''),
            t @ [\<lparr>id_livro = next_id t, titulo = TEXT (strip (str_of tv)),
                  autor = TEXT (strip (str_of av)), ano = INTEGER n,
                  disponivel = INTEGER 1\<rparr>]) \<and>
         next_id t \<notin> set (map id_livro t) \<and>
         BooleanField_python_value (disponivel (last (snd (criar_livro t (PDict kvs))))) =
           PBool True"
  using assms
  by (simp add: criar_livro_present [where ts = "str_of tv" and us = "str_of av"]
      py_str_str_ok next_id_fresh del: set_map)

text \<open>
  The theorem at a payload with white space around the title and with \<^verbatim>\<open>disponivel\<close> false,
  on the seeded table: the new row has the key 3 and is available.
\<close>

theorem criar_livro_inserts_witness:
  "str_ok (PStr ''  Dom Casmurro '') \<and> str_ok (PStr ''Machado de Assis'') \<and>
   py_int (PInt 1899) = Inr 1899 \<and> sqlite_int 1899 \<and> sqlite_int (next_id initial) \<and>
   criar_livro initial (PDict [(''titulo'', PStr ''  Dom Casmurro ''),
       (''autor'', PStr ''Machado de Assis''), (''ano'', PInt 1899),
       (''disponivel'', PBool False)]) =
     (Inr (Ret_Text ''Livro adicionado com sucesso''),
      initial @ [\<lparr>id_livro = 3, titulo = TEXT ''Dom Casmurro'',
                   autor = TEXT ''Machado de Assis'', ano = INTEGER 1899,
                   disponivel = INTEGER 1\<rparr>]) \<and>
   3 \<notin> set (map id_livro initial) \<and>
   BooleanField_python_value (disponivel (last (snd (criar_livro initial
     (PDict [(''titulo'', PStr ''  Dom Casmurro ''), (''autor'', PStr ''Machado de Assis''),
       (''ano'', PInt 1899), (''disponivel'', PBool False)]))))) = PBool True"
  using criar_livro_inserts [of "[(''titulo'', PStr ''  Dom Casmurro ''),
       (''autor'', PStr ''Machado de Assis''), (''ano'', PInt 1899),
       (''disponivel'', PBool False)]" "PStr ''  Dom Casmurro ''" "PStr ''Machado de Assis''"
       "PInt 1899" 1899 initial]
  by (simp add: str_of_def strip_def py_isspace_def next_id_def sqlite_int_def initial_seeds
      seed1_def seed2_def)

text \<open>
  The claim as it stands, for every payload that has the three fields, fails where \<^verbatim>\<open>ano\<close>
  is not a number: the check of the required fields passes, \<^verbatim>\<open>int\<close> raises \<^verbatim>\<open>ValueError\<close>,
  and no row is added.
\<close>

theorem criar_livro_text_ano:
  "all_in obrig (PDict [(''titulo'', PStr ''X''), (''autor'', PStr ''Y''), (''ano'', PStr ''MMXX'')]) =
     Inr True \<and>
   criar_livro initial (PDict [(''titulo'', PStr ''X''), (''autor'', PStr ''Y''),
       (''ano'', PStr ''MMXX'')]) = (Inl (Raise ValueError), initial)"
  by (simp add: criar_livro_def py_or_def obrig_def py_str_PStr int_of_str_def int_isspace_def
      is_digit_def)

section \<open>Updating the availability without the field\<close>

text \<open>
  C4. The claim: a payload without \<^verbatim>\<open>disponivel\<close> is answered with a bad-request error,
  status 400, and the table stays as it is. The code reads \<^verbatim>\<open>data['disponivel']\<close>
  unguarded: the table stays as it is, but \<^verbatim>\<open>KeyError\<close> escapes the handler, and the
  status is 500.
\<close>

theorem atualizar_disponibilidade_missing_field:
  "atualizar_disponibilidade initial 1 (PDict [(''disponibilidade'', PBool False)]) =
     (Inl (Raise (KeyError ''disponivel'')), initial) \<and>
   status_code (fst (atualizar_disponibilidade initial 1
     (PDict [(''disponibilidade'', PBool False)]))) = 500"
  by (simp add: atualizar_disponibilidade_def py_or_def)

section \<open>Creating a book without a required field\<close>

text \<open>
  C5. For every payload (a JSON object) that lacks \<^verbatim>\<open>titulo\<close>, \<^verbatim>\<open>autor\<close> or \<^verbatim>\<open>ano\<close>,
  \<^verbatim>\<open>criar_livro\<close> aborts with status 400, and the table stays as it is.
\<close>

theorem criar_livro_missing_field:
  assumes "map_of kvs ''titulo'' = None \<or> map_of kvs ''autor'' = None \<or> map_of kvs ''ano'' = None"
  shows "criar_livro t (PDict kvs) = (Inl (Abort 400 campos_obrigatorios), t) \<and>
         status_code (fst (criar_livro t (PDict kvs))) = 400"
proof -
  from assms have "all_in obrig (PDict kvs) = Inr False"
    by (auto simp: obrig_def)
  then show ?thesis
    by (simp add: criar_livro_def py_or_PDict)
qed

text \<open>The theorem at a payload without \<^verbatim>\<open>ano\<close>, on the seeded table.\<close>

theorem criar_livro_missing_field_witness:
  "map_of [(''titulo'', PStr ''X''), (''autor'', PStr ''Y'')] ''ano'' = None \<and>
   criar_livro initial (PDict [(''titulo'', PStr ''X''), (''autor'', PStr ''Y'')]) =
     (Inl (Abort 400 campos_obrigatorios), initial) \<and>
   status_code (fst (criar_livro initial (PDict [(''titulo'', PStr ''X''), (''autor'', PStr ''Y'')]))) = 400"
  using criar_livro_missing_field [of "[(''titulo'', PStr ''X''), (''autor'', PStr ''Y'')]" initial]
  by simp

section \<open>Deleting a book\<close>

text \<open>
  C6, as amended. For every id below \<open>2\<^sup>6\<^sup>3\<close>, \<^verbatim>\<open>remover_livro\<close> signals no error and returns
  its confirmation, with status 200. The table it leaves has exactly the rows with another
  id, as they were and in their order; so the rows with the id are gone, and when no row
  has the id the table is as before.
\<close>

theorem remover_livro_removes_only_lid:
  assumes "int lid < 2 ^ 63"
  shows "fst (remover_livro t lid) = Inr (Ret_Text ''Livro removido com sucesso!'') \<and>
   status_code (fst (remover_livro t lid)) = 200 \<and>
   snd (remover_livro t lid) = filter (\<lambda>r. id_livro r \<noteq> int lid) t \<and>
   where_id lid (snd (remover_livro t lid)) = [] \<and>
   (where_id lid t = [] \<longrightarrow> snd (remover_livro t lid) = t)"
proof -
  from assms have "sqlite_int (int lid)"
    by (simp add: sqlite_int_def)
  then show ?thesis
    by (auto simp: remover_livro_in_range where_id_def filter_empty_conv)
qed

text \<open>
  The theorem on the seeded table: the id 99, which no row has, and the id 2, whose row
  goes.
\<close>

theorem remover_livro_removes_only_lid_witness:
  "int 99 < 2 ^ 63 \<and> int 2 < 2 ^ 63 \<and>
   where_id 99 initial = [] \<and> snd (remover_livro initial 99) = initial \<and>
   fst (remover_livro initial 99) = Inr (Ret_Text ''Livro removido com sucesso!'') \<and>
   snd (remover_livro initial 2) = [seed1] \<and>
   fst (remover_livro initial 2) = Inr (Ret_Text ''Livro removido com sucesso!'')"
  using remover_livro_removes_only_lid [of 99 initial] remover_livro_removes_only_lid [of 2 initial]
  by (simp add: where_id_def initial_seeds seed1_def seed2_def)

text \<open>
  The claim as it stands, for every id, fails at \<open>2\<^sup>6\<^sup>3\<close>, which the route accepts: the
  driver cannot bind the id, \<^verbatim>\<open>OverflowError\<close> escapes the handler, and the status is 500.
\<close>

theorem remover_livro_large_id:
  "remover_livro initial 9223372036854775808 = (Inl (Raise OverflowError), initial) \<and>
   status_code (fst (remover_livro initial 9223372036854775808)) = 500"
  by (simp add: remover_livro_def Livro_delete_def sqlite_int_def)

section \<open>Updating the availability\<close>

text \<open>
  C7. For every id and every payload that has \<^verbatim>\<open>disponivel\<close>, the table that
  \<^verbatim>\<open>atualizar_disponibilidade\<close> leaves has, row for row, the \<^verbatim>\<open>id\<close>, \<^verbatim>\<open>titulo\<close>, \<^verbatim>\<open>autor\<close> and
  \<^verbatim>\<open>ano\<close> of the table before, and every row with another id is as it was. When the value
  supplied is not \<^verbatim>\<open>null\<close> and the id is below \<open>2\<^sup>6\<^sup>3\<close>, as the id of every row is, the
  handler succeeds and the rows with the id have its truth value as their \<^verbatim>\<open>disponivel\<close>.
\<close>

theorem atualizar_disponibilidade_frame:
  assumes "map_of kvs ''disponivel'' = Some dv"
  shows "list_all2 (\<lambda>r r'. id_livro r' = id_livro r \<and> titulo r' = titulo r \<and>
            autor r' = autor r \<and> ano r' = ano r \<and> (id_livro r \<noteq> int lid \<longrightarrow> r' = r))
           t (snd (atualizar_disponibilidade t lid (PDict kvs))) \<and>
         (dv \<noteq> PNone \<and> int lid < 2 ^ 63 \<longrightarrow>
            fst (atualizar_disponibilidade t lid (PDict kvs)) =
              Inr (Ret_Text ''Livro atualizado com sucesso'') \<and>
            list_all (\<lambda>r'. disponivel r' = INTEGER (if py_bool dv then 1 else 0))
              (where_id lid (snd (atualizar_disponibilidade t lid (PDict kvs)))))"
proof -
  have range: "sqlite_int (int lid)" if "int lid < 2 ^ 63"
    using that by (simp add: sqlite_int_def)
  have "list_all2 (\<lambda>r r'. id_livro r' = id_livro r \<and> titulo r' = titulo r \<and>
            autor r' = autor r \<and> ano r' = ano r \<and> (id_livro r \<noteq> int lid \<longrightarrow> r' = r))
           t (snd (atualizar_disponibilidade t lid (PDict kvs)))"
    by (simp add: atualizar_disponibilidade_table [OF assms] list_all2_map2 list_all2_same)
  moreover have "BooleanField_db_value dv = INTEGER (if py_bool dv then 1 else 0)" if "dv \<noteq> PNone"
    using that by (cases dv) simp_all
  then have "list_all (\<lambda>r'. disponivel r' = INTEGER (if py_bool dv then 1 else 0))
      (where_id lid (snd (atualizar_disponibilidade t lid (PDict kvs))))"
    if "dv \<noteq> PNone" and "int lid < 2 ^ 63"
    using that range
    by (auto simp: atualizar_disponibilidade_table [OF assms] where_id_def list_all_iff)
  moreover have "fst (atualizar_disponibilidade t lid (PDict kvs)) =
      Inr (Ret_Text ''Livro atualizado com sucesso'')" if "dv \<noteq> PNone" and "int lid < 2 ^ 63"
    using that range by (simp add: atualizar_disponibilidade_field [OF assms])
  ultimately show ?thesis by blast
qed

text \<open>The theorem at the id 2 of the seeded table and the payload \<^verbatim>\<open>{"disponivel": false}\<close>.\<close>

theorem atualizar_disponibilidade_frame_witness:
  "map_of [(''disponivel'', PBool False)] ''disponivel'' = Some (PBool False) \<and>
   PBool False \<noteq> PNone \<and> int 2 < 2 ^ 63 \<and>
   atualizar_disponibilidade initial 2 (PDict [(''disponivel'', PBool False)]) =
     (Inr (Ret_Text ''Livro atualizado com sucesso''),
      [seed1, seed2\<lparr>disponivel := INTEGER 0\<rparr>]) \<and>
   list_all2 (\<lambda>r r'. id_livro r' = id_livro r \<and> titulo r' = titulo r \<and>
            autor r' = autor r \<and> ano r' = ano r \<and> (id_livro r \<noteq> int 2 \<longrightarrow> r' = r))
     initial [seed1, seed2\<lparr>disponivel := INTEGER 0\<rparr>]"
  using atualizar_disponibilidade_frame [of "[(''disponivel'', PBool False)]" "PBool False" 2 initial]
  by (simp add: atualizar_disponibilidade_field sqlite_int_def initial_seeds where_id_def
      seed1_def seed2_def)

section \<open>Editing a book\<close>

text \<open>
  C8, as amended. For every id below \<open>2\<^sup>6\<^sup>3\<close>, as the id of every row is, and every payload
  whose \<^verbatim>\<open>titulo\<close> and \<^verbatim>\<open>autor\<close> are strings, whose \<^verbatim>\<open>ano\<close> is an integer of the 64-bit range
  and whose \<^verbatim>\<open>disponivel\<close> is a boolean, \<^verbatim>\<open>editar\<close> succeeds and gives the rows with the id
  these four values (the boolean stored as 1 or 0); their \<^verbatim>\<open>id\<close> and every other row stay as
  they were. For every id and every payload at all, when no row has the id the table stays
  as it is: no row is changed and none is added.
\<close>

theorem editar_overwrites:
  assumes "map_of kvs ''titulo'' = Some (PStr s)" and "map_of kvs ''autor'' = Some (PStr a)"
    and "map_of kvs ''ano'' = Some (PInt n)" and "map_of kvs ''disponivel'' = Some (PBool b)"
    and "sqlite_int n"
  shows "(int lid < 2 ^ 63 \<longrightarrow>
      editar t lid (PDict kvs) =
       (Inr (Ret_Text ''Livro editado com sucesso''),
        map (\<lambda>r. if id_livro r = int lid
                  then r\<lparr>titulo := TEXT s, autor := TEXT a, ano := INTEGER n,
                         disponivel := INTEGER (if b then 1 else 0)\<rparr>
                  else r) t)) \<and>
     BooleanField_python_value (INTEGER (if b then 1 else 0)) = PBool b \<and>
     (where_id lid t = [] \<longrightarrow> snd (editar t lid body) = t)"
proof -
  have "sqlite_int (int lid)" if "int lid < 2 ^ 63"
    using that by (simp add: sqlite_int_def)
  then show ?thesis
    using editar_typed [OF assms] editar_no_match by simp
qed

text \<open>
  The theorem on the seeded table, at the id 1 and at the id 99, which no row has.
\<close>

theorem editar_overwrites_witness:
  "sqlite_int 2008 \<and> int 1 < 2 ^ 63 \<and>
   editar initial 1 (PDict [(''titulo'', PStr ''Codigo Limpo''), (''autor'', PStr ''Robert Martin''),
       (''ano'', PInt 2008), (''disponivel'', PBool False)]) =
     (Inr (Ret_Text ''Livro editado com sucesso''),
      [\<lparr>id_livro = 1, titulo = TEXT ''Codigo Limpo'', autor = TEXT ''Robert Martin'',
        ano = INTEGER 2008, disponivel = INTEGER 0\<rparr>, seed2]) \<and>
   where_id 99 initial = [] \<and>
   snd (editar initial 99 (PDict [(''titulo'', PStr ''Codigo Limpo''),
       (''autor'', PStr ''Robert Martin''), (''ano'', PInt 2008),
       (''disponivel'', PBool False)])) = initial"
  using editar_overwrites [of "[(''titulo'', PStr ''Codigo Limpo''),
       (''autor'', PStr ''Robert Martin''), (''ano'', PInt 2008), (''disponivel'', PBool False)]"
       "''Codigo Limpo''" "''Robert Martin''" 2008 False 1 initial]
    editar_overwrites [of "[(''titulo'', PStr ''Codigo Limpo''),
       (''autor'', PStr ''Robert Martin''), (''ano'', PInt 2008), (''disponivel'', PBool False)]"
       "''Codigo Limpo''" "''Robert Martin''" 2008 False 99 initial
       "PDict [(''titulo'', PStr ''Codigo Limpo''),
       (''autor'', PStr ''Robert Martin''), (''ano'', PInt 2008), (''disponivel'', PBool False)]"]
  by (simp add: sqlite_int_def where_id_def initial_seeds seed1_def seed2_def)

text \<open>
  The claim as it stands, for every payload that has the four fields, fails where a value
  is \<^verbatim>\<open>null\<close>: the row with the id 1 exists, the update would write \<^verbatim>\<open>NULL\<close> into a
  \<^verbatim>\<open>NOT NULL\<close> column, \<^verbatim>\<open>IntegrityError\<close> is raised, and no field is overwritten.
\<close>

theorem editar_null_disponivel:
  "where_id 1 initial = [seed1] \<and>
   editar initial 1 (PDict [(''titulo'', PStr ''T''), (''autor'', PStr ''A''), (''ano'', PInt 2000),
      (''disponivel'', PNone)]) = (Inl (Raise IntegrityError), initial)"
  by (simp add: editar_def py_or_def Livro_update_def statement_values_editar py_str_PStr
      sqlite_int_def where_id_def initial_seeds seed1_def seed2_def)

section \<open>The invariant of the table\<close>

text \<open>
  C9. In every state that the service reaches from a new database, by requests and
  restarts, no two rows share an \<^verbatim>\<open>id\<close> and no row has \<^verbatim>\<open>NULL\<close> for its \<^verbatim>\<open>disponivel\<close>; and
  each of \<^verbatim>\<open>criar_livro\<close>, \<^verbatim>\<open>remover_livro\<close>, \<^verbatim>\<open>atualizar_disponibilidade\<close> and \<^verbatim>\<open>editar\<close>,
  with any id and any payload, takes a table with this property to one with it.
\<close>

theorem table_inv_reachable:
  "table_inv (run initial es) \<and>
   (table_inv t \<longrightarrow>
      table_inv (snd (criar_livro t body)) \<and> table_inv (snd (remover_livro t lid)) \<and>
      table_inv (snd (atualizar_disponibilidade t lid body)) \<and> table_inv (snd (editar t lid body)))"
proof -
  from table_inv_initial have "table_inv (run initial es)" by (rule table_inv_run)
  then show ?thesis
    by (simp add: table_inv_criar_livro table_inv_remover_livro
        table_inv_atualizar_disponibilidade table_inv_editar)
qed

text \<open>
  The theorem on the seeded table, which has the property, and on a run that creates a
  book, deletes the first one and restarts.
\<close>

theorem table_inv_reachable_witness:
  "table_inv [seed1, seed2] \<and>
   table_inv (snd (criar_livro [seed1, seed2]
      (PDict [(''titulo'', PStr ''X''), (''autor'', PStr ''Y''), (''ano'', PInt 2020)]))) \<and>
   table_inv (snd (editar [seed1, seed2] 2
      (PDict [(''titulo'', PStr ''X''), (''autor'', PStr ''Y''), (''ano'', PInt 2020)]))) \<and>
   table_inv (run initial
      [Request (POST_livros (PDict [(''titulo'', PStr ''X''), (''autor'', PStr ''Y''),
          (''ano'', PInt 2020)])),
       Request (DELETE_livro 1), Restart])"
proof -
  have "table_inv [seed1, seed2]"
    by (simp add: table_inv_def seed1_def seed2_def)
  then show ?thesis
    using table_inv_reachable [of
        "[Request (POST_livros (PDict [(''titulo'', PStr ''X''), (''autor'', PStr ''Y''),
          (''ano'', PInt 2020)])), Request (DELETE_livro 1), Restart]"
        "[seed1, seed2]"
        "PDict [(''titulo'', PStr ''X''), (''autor'', PStr ''Y''), (''ano'', PInt 2020)]" 2]
    by blast
qed

section \<open>Creating a book whose title or author is not a string\<close>

text \<open>
  C10. Take a payload that \<^verbatim>\<open>criar_livro\<close> has no other reason to refuse: it has \<^verbatim>\<open>titulo\<close>,
  \<^verbatim>\<open>autor\<close> and \<^verbatim>\<open>ano\<close>, \<^verbatim>\<open>int\<close> accepts the \<^verbatim>\<open>ano\<close> and gives an integer of the 64-bit range,
  and the table has room for a key. If its \<^verbatim>\<open>titulo\<close> or its \<^verbatim>\<open>autor\<close> is not a string (but
  a value of a parsed body: an integer of at most 4300 digits, a boolean, \<^verbatim>\<open>null\<close>, or a
  list or object of such values and strings), \<^verbatim>\<open>criar_livro\<close> does not reject the payload:
  it succeeds with status 200 and appends one row, whose \<^verbatim>\<open>titulo\<close> and \<^verbatim>\<open>autor\<close> are \<^verbatim>\<open>str\<close>
  of the values supplied without the white space around them. For an integer that is its
  decimal form, for a boolean \<^verbatim>\<open>True\<close> or \<^verbatim>\<open>False\<close>, for \<^verbatim>\<open>null\<close> it is \<^verbatim>\<open>None\<close>
  (\<open>strip_str_of_PInt\<close>, \<open>strip_str_of_PBool\<close>, \<open>strip_str_of_PNone\<close>).
\<close>

theorem criar_livro_non_string:
  assumes "map_of kvs ''titulo'' = Some tv" and "map_of kvs ''autor'' = Some av"
    and "map_of kvs ''ano'' = Some yv"
    and "\<not> is_str tv \<or> \<not> is_str av"
    and "str_ok tv" and "str_ok av"
    and "py_int yv = Inr n" and "sqlite_int n"
    and "sqlite_int (next_id t)"
  shows "status_code (fst (criar_livro t (PDict kvs))) = 200 \<and>
         snd (criar_livro t (PDict kvs)) = t @ [last (snd (criar_livro t (PDict kvs)))] \<and>
         titulo (last (snd (criar_livro t (PDict kvs)))) = TEXT (strip (str_of tv)) \<and>
         autor (last (snd (criar_livro t (PDict kvs)))) = TEXT (strip (str_of av))"
  using assms
  by (simp add: criar_livro_present [where ts = "str_of tv" and us = "str_of av"] py_str_str_ok)

text \<open>
  The theorem at a payload whose title is a number and whose author is a boolean (and
  whose year is a string of digits), on the seeded table.
\<close>

theorem criar_livro_non_string_witness:
  "\<not> is_str (PInt 1984) \<and> str_ok (PInt 1984) \<and> str_ok (PBool True) \<and>
   py_int (PStr ''1949'') = Inr 1949 \<and> sqlite_int 1949 \<and> sqlite_int (next_id initial) \<and>
   status_code (fst (criar_livro initial (PDict [(''titulo'', PInt 1984),
       (''autor'', PBool True), (''ano'', PStr ''1949'')]))) = 200 \<and>
   titulo (last (snd (criar_livro initial (PDict [(''titulo'', PInt 1984),
       (''autor'', PBool True), (''ano'', PStr ''1949'')])))) = TEXT ''1984'' \<and>
   autor (last (snd (criar_livro initial (PDict [(''titulo'', PInt 1984),
       (''autor'', PBool True), (''ano'', PStr ''1949'')])))) = TEXT ''True''"
proof -
  have y: "py_int (PStr ''1949'') = Inr 1949"
    by (simp add: int_of_str_def int_isspace_def is_digit_def digits_val_def max_str_digits_def)
  have r: "sqlite_int 1949" "sqlite_int 1984" "sqlite_int (next_id initial)"
    by (simp_all add: sqlite_int_def next_id_def initial_seeds seed1_def seed2_def)
  have k: "str_ok (PInt 1984)" "str_ok (PBool True)"
    using r by (simp_all add: int_str_ok_sqlite_int)
  have s: "strip (str_of (PInt 1984)) = ''1984''" "strip (str_of (PBool True)) = ''True''"
    by (simp_all add: strip_str_of_PInt strip_str_of_PBool dec_str_def digit_char_def)
  from criar_livro_non_string [of "[(''titulo'', PInt 1984), (''autor'', PBool True),
       (''ano'', PStr ''1949'')]" "PInt 1984" "PBool True" "PStr ''1949''" 1949 initial] y r k s
  show ?thesis by simp
qed


end
